theory Spec2Isabelle
  imports Main "HOL-Library.Stream"
begin

section \<open>Data model of server.js\<close>

text \<open>
  One entry of \<open>req.files\<close>, as the multer middleware hands it to the upload handler
  after it has written the part to the \<open>uploads/\<close> directory. The handler reads the
  properties \<open>originalname\<close>, \<open>filename\<close>, \<open>path\<close> and \<open>size\<close>.
\<close>

record multer_file =
  originalname :: string
  filename :: string
  upload_path :: string
  upload_size :: nat

text \<open>
  The object literal the upload handler builds for each file (lines 57-62) and the
  object it stores in \<open>fileStore\<close> (lines 56-67). A \<open>Date\<close> is its number of
  milliseconds since the epoch.
\<close>

record file_record =
  originalName :: string
  storedName :: string
  path :: string
  size_f :: nat

record transfer =
  files :: "file_record list"
  email :: "string option"
  message :: "string option"
  createdAt :: int
  expiresAt :: int

text \<open>
  The state the handlers run in: the module-level \<open>fileStore\<close> map (line 34), the set of
  paths that hold content in the \<open>uploads/\<close> directory, and the random source. The
  stream \<open>entropy\<close> lists what the coming evaluations of
  \<open>Math.random().toString(36).substring(2, 15)\<close> return; an evaluation consumes the head.
\<close>

record server =
  fileStore :: "string \<rightharpoonup> transfer"
  uploads :: "string set"
  entropy :: "string stream"

text \<open>
  The request of \<open>POST /api/upload\<close>: \<open>req.files\<close> (absent when the form has no file
  field) and the two optional body fields.
\<close>

record upload_request =
  req_files :: "multer_file list option"
  body_email :: "string option"
  body_message :: "string option"

datatype upload_response =
  Status400 string
  | Json200 string nat

text \<open>
  The responses of the two download routes: the 404 and 410 pages, \<open>res.download\<close> of a
  path under a display name, and the page of several files, kept as the list of its
  items: the link target, the link text and the formatted size of each.
\<close>

datatype download_response =
  Status404
  | Status410
  | Download string string
  | Page "(string \<times> string \<times> string) list"

section \<open>Helper functions (lines 191-202)\<close>

text \<open>\<open>generateDownloadId\<close>: two random fragments, concatenated left to right.\<close>

definition generateDownloadId :: "server \<Rightarrow> string \<times> server" where
  "generateDownloadId s =
     (shd (entropy s) @ shd (stl (entropy s)),
      s\<lparr>entropy := stl (stl (entropy s))\<rparr>)"

text \<open>
  \<open>formatFileSize\<close> works on doubles; the model is for byte counts below \<open>2 ^ 53\<close>,
  where the division by a power of 1024 and the rounding of \<open>toFixed\<close> are exact.
  \<open>log_index\<close> is \<open>Math.floor(Math.log(bytes) / Math.log(k))\<close> for \<open>k = 1024\<close>: the
  exact \<open>floor (log k bytes)\<close>, but for the three byte counts just below \<open>2 ^ 50\<close>,
  whose logarithm rounds to the double of \<open>Math.log(2 ^ 50)\<close>, so that the quotient
  is 5 already.

  \<open>toFixed2 n d\<close> is \<open>(n / d).toFixed(2)\<close> as a number of hundredths: the nearest one,
  the larger of two that are equally near. \<open>show_hundredths\<close> is what \<open>parseFloat\<close> of
  that text prints as when it is appended to a string: the decimal without trailing
  zeros.
\<close>

definition digit :: "nat \<Rightarrow> char" where
  "digit d = ''0123456789'' ! (d mod 10)"

fun string_of_nat :: "nat \<Rightarrow> string" where
  "string_of_nat n =
     (if n < 10 then [digit n] else string_of_nat (n div 10) @ [digit (n mod 10)])"

fun floor_log :: "nat \<Rightarrow> nat \<Rightarrow> nat" where
  "floor_log k n = (if k < 2 \<or> n < k then 0 else Suc (floor_log k (n div k)))"

declare string_of_nat.simps [simp del]

declare floor_log.simps [simp del]

definition log_index :: "nat \<Rightarrow> nat" where
  "log_index bytes =
     (if 2 ^ 50 - 3 \<le> bytes \<and> bytes < 2 ^ 50 then 5 else floor_log 1024 bytes)"

definition toFixed2 :: "nat \<Rightarrow> nat \<Rightarrow> nat" where
  "toFixed2 n d = (200 * n + d) div (2 * d)"

definition show_hundredths :: "nat \<Rightarrow> string" where
  "show_hundredths h =
     (let whole = h div 100; frac = h mod 100
      in if frac = 0 then string_of_nat whole
         else if frac mod 10 = 0 then string_of_nat whole @ ''.'' @ [digit (frac div 10)]
         else string_of_nat whole @ ''.'' @ [digit (frac div 10), digit (frac mod 10)])"

definition sizes :: "string list" where
  "sizes = [''Bytes'', ''KB'', ''MB'', ''GB'']"

text \<open>
  \<open>sizes[i]\<close> is \<open>undefined\<close> when \<open>i\<close> is not an index of the array, and string
  concatenation writes that value as the text \<open>undefined\<close>.
\<close>

definition formatFileSize :: "nat \<Rightarrow> string" where
  "formatFileSize bytes =
     (if bytes = 0 then ''0 Bytes''
      else
        let k = 1024;
            i = log_index bytes
        in show_hundredths (toFixed2 bytes (k ^ i)) @ '' '' @
           (if i < length sizes then sizes ! i else ''undefined''))"

section \<open>The routes\<close>

text \<open>
  \<open>POST /api/upload\<close> (lines 37-85). The handler reads the clock twice: \<open>created\<close> is
  the value of \<open>new Date()\<close> on line 65 and \<open>now\<close> the value of \<open>Date.now()\<close> on line 66,
  read after it. The two are equal unless the millisecond clock ticks in between.
  The \<open>catch\<close> branches of the handlers answer 500 when a statement throws; no
  statement modelled here does, so the responses have no such case.
\<close>

definition post_api_upload ::
  "upload_request \<Rightarrow> int \<Rightarrow> int \<Rightarrow> server \<Rightarrow> upload_response \<times> server" where
  "post_api_upload req created now s =
     (case req_files req of
        None \<Rightarrow> (Status400 ''Please select files to upload'', s)
      | Some fs \<Rightarrow>
          if length fs = 0 then (Status400 ''Please select files to upload'', s)
          else
            let (downloadId, s1) = generateDownloadId s;
                fileData = \<lparr>files = map (\<lambda>file. \<lparr>originalName = originalname file,
                                                  storedName = filename file,
                                                  path = upload_path file,
                                                  size_f = upload_size file\<rparr>) fs,
                            email = body_email req,
                            message = body_message req,
                            createdAt = created,
                            expiresAt = now + 7 * 24 * 60 * 60 * 1000\<rparr>
            in (Json200 downloadId (length fs),
                s1\<lparr>fileStore := (fileStore s1)(downloadId \<mapsto> fileData)\<rparr>))"

text \<open>
  \<open>GET /download/:id\<close> (lines 88-161), in its two halves. \<open>resolve\<close> is the lookup with
  the expiry check (lines 90-119): the entry is missing, or it is past its \<open>expiresAt\<close>
  and is deleted from \<open>fileStore\<close>, or it is handed on. \<open>get_download\<close> is the whole
  handler: the lookup, then the answer for one file or for several (lines 121-156).
\<close>

datatype resolved =
  Missing
  | Expired
  | Live transfer

definition resolve :: "string \<Rightarrow> int \<Rightarrow> server \<Rightarrow> resolved \<times> server" where
  "resolve downloadId now s =
     (case fileStore s downloadId of
        None \<Rightarrow> (Missing, s)
      | Some fileData \<Rightarrow>
          if now > expiresAt fileData
          then (Expired, s\<lparr>fileStore := (fileStore s)(downloadId := None)\<rparr>)
          else (Live fileData, s))"

definition file_item :: "string \<Rightarrow> file_record \<Rightarrow> string \<times> string \<times> string" where
  "file_item downloadId file =
     (''/download-file/'' @ downloadId @ ''/'' @ storedName file,
      originalName file,
      formatFileSize (size_f file))"

definition get_download :: "string \<Rightarrow> int \<Rightarrow> server \<Rightarrow> download_response \<times> server" where
  "get_download downloadId now s =
     (case resolve downloadId now s of
        (Missing, s1) \<Rightarrow> (Status404, s1)
      | (Expired, s1) \<Rightarrow> (Status410, s1)
      | (Live fileData, s1) \<Rightarrow>
          if length (files fileData) = 1
          then let file = files fileData ! 0
               in (Download (path file) (originalName file), s1)
          else (Page (map (file_item downloadId) (files fileData)), s1))"

text \<open>
  \<open>GET /download-file/:id/:filename\<close> (lines 164-175). The handler reads no clock.
\<close>

definition get_download_file :: "string \<Rightarrow> string \<Rightarrow> server \<Rightarrow> download_response \<times> server" where
  "get_download_file downloadId fname s =
     (case fileStore s downloadId of
        None \<Rightarrow> (Status404, s)
      | Some fileData \<Rightarrow>
          (case find (\<lambda>f. storedName f = fname) (files fileData) of
             None \<Rightarrow> (Status404, s)
           | Some file \<Rightarrow> (Download (path file) (originalName file), s)))"

section \<open>Sample requests and states\<close>

text \<open>
  Two files as multer stores them, three requests, and a server that has stored nothing
  yet and whose random source returns the fragment \<open>ab\<close> at every evaluation, so that
  every identifier it generates is \<open>abab\<close>. \<open>after_first\<close> is that server after the
  upload of the first file at time 0, \<open>after_pair\<close> after the upload of both files at
  time 1, and \<open>after_tick\<close> after the upload of the first file with the clock at 0 for
  \<open>new Date()\<close> and at 1 for \<open>Date.now()\<close>.
\<close>

definition first_file :: multer_file where
  "first_file = \<lparr>originalname = ''a.txt'', filename = ''1-2.txt'',
                  upload_path = ''uploads/1-2.txt'', upload_size = 1536\<rparr>"

definition second_file :: multer_file where
  "second_file = \<lparr>originalname = ''b.png'', filename = ''3-4.png'',
                   upload_path = ''uploads/3-4.png'', upload_size = 5\<rparr>"

definition first_request :: upload_request where
  "first_request = \<lparr>req_files = Some [first_file], body_email = None, body_message = None\<rparr>"

definition pair_request :: upload_request where
  "pair_request =
     \<lparr>req_files = Some [second_file, first_file], body_email = None, body_message = None\<rparr>"

definition empty_request :: upload_request where
  "empty_request = \<lparr>req_files = Some [], body_email = None, body_message = None\<rparr>"

definition idle_server :: server where
  "idle_server = \<lparr>fileStore = Map.empty,
                   uploads = {''uploads/1-2.txt'', ''uploads/3-4.png''},
                   entropy = sconst ''ab''\<rparr>"

definition after_first :: server where
  "after_first = snd (post_api_upload first_request 0 0 idle_server)"

definition after_pair :: server where
  "after_pair = snd (post_api_upload pair_request 1 1 idle_server)"

definition after_tick :: server where
  "after_tick = snd (post_api_upload first_request 0 1 idle_server)"

definition first_transfer :: transfer where
  "first_transfer =
     \<lparr>files = [\<lparr>originalName = ''a.txt'', storedName = ''1-2.txt'',
                 path = ''uploads/1-2.txt'', size_f = 1536\<rparr>],
      email = None, message = None, createdAt = 0, expiresAt = 604800000\<rparr>"

definition pair_transfer :: transfer where
  "pair_transfer =
     \<lparr>files = [\<lparr>originalName = ''b.png'', storedName = ''3-4.png'',
                 path = ''uploads/3-4.png'', size_f = 5\<rparr>,
               \<lparr>originalName = ''a.txt'', storedName = ''1-2.txt'',
                 path = ''uploads/1-2.txt'', size_f = 1536\<rparr>],
      email = None, message = None, createdAt = 1, expiresAt = 604800001\<rparr>"

definition tick_transfer :: transfer where
  "tick_transfer =
     \<lparr>files = [\<lparr>originalName = ''a.txt'', storedName = ''1-2.txt'',
                 path = ''uploads/1-2.txt'', size_f = 1536\<rparr>],
      email = None, message = None, createdAt = 0, expiresAt = 604800001\<rparr>"

section \<open>Evaluating the model\<close>

lemma after_first_eval:
  "after_first = \<lparr>fileStore = [''abab'' \<mapsto> first_transfer],
                   uploads = {''uploads/1-2.txt'', ''uploads/3-4.png''},
                   entropy = sconst ''ab''\<rparr>"
  by (simp add: after_first_def first_request_def first_file_def idle_server_def
      first_transfer_def post_api_upload_def generateDownloadId_def)

lemma after_pair_eval:
  "after_pair = \<lparr>fileStore = [''abab'' \<mapsto> pair_transfer],
                  uploads = {''uploads/1-2.txt'', ''uploads/3-4.png''},
                  entropy = sconst ''ab''\<rparr>"
  by (simp add: after_pair_def pair_request_def first_file_def second_file_def idle_server_def
      pair_transfer_def post_api_upload_def generateDownloadId_def)

lemma after_tick_eval:
  "after_tick = \<lparr>fileStore = [''abab'' \<mapsto> tick_transfer],
                  uploads = {''uploads/1-2.txt'', ''uploads/3-4.png''},
                  entropy = sconst ''ab''\<rparr>"
  by (simp add: after_tick_def first_request_def first_file_def idle_server_def
      tick_transfer_def post_api_upload_def generateDownloadId_def)

lemma upload_tick_eval:
  "post_api_upload first_request 0 1 idle_server = (Json200 ''abab'' 1, after_tick)"
proof -
  have "fst (post_api_upload first_request 0 1 idle_server) = Json200 ''abab'' 1"
    by (simp add: post_api_upload_def generateDownloadId_def first_request_def idle_server_def)
  then show ?thesis
    by (simp add: after_tick_def prod_eq_iff)
qed

lemma log_index_values:
  "log_index 5 = 0"
  "log_index 1024 = 1"
  "log_index 1536 = 1"
  "log_index 1048576 = 2"
  "log_index 5368709120 = 3"
  "log_index 2199023255552 = 4"
  by (simp_all add: log_index_def floor_log.simps)

text \<open>The sizes that the usual range of the function prints.\<close>

lemma formatFileSize_values:
  "formatFileSize 0 = ''0 Bytes''"
  "formatFileSize 5 = ''5 Bytes''"
  "formatFileSize 1024 = ''1 KB''"
  "formatFileSize 1536 = ''1.5 KB''"
  "formatFileSize 1048576 = ''1 MB''"
  "formatFileSize 5368709120 = ''5 GB''"
  by (simp_all add: formatFileSize_def Let_def log_index_values toFixed2_def
      show_hundredths_def sizes_def digit_def string_of_nat.simps)

text \<open>\<open>floor_log k n\<close> is at least every exponent whose power of \<open>k\<close> fits into \<open>n\<close>.\<close>

lemma floor_log_ge: "2 \<le> k \<Longrightarrow> k ^ m \<le> n \<Longrightarrow> m \<le> floor_log k n"
proof (induction m arbitrary: n)
  case 0
  then show ?case by simp
next
  case (Suc m)
  from Suc.prems(1) have "k \<le> k ^ Suc m"
    by (intro self_le_power) auto
  with Suc.prems(2) have kn: "k \<le> n"
    by linarith
  from Suc.prems have "k ^ m \<le> n div k"
    by (metis div_le_mono nonzero_mult_div_cancel_left power_Suc not_numeral_le_zero)
  with Suc.IH Suc.prems(1) have "m \<le> floor_log k (n div k)"
    by blast
  with kn Suc.prems(1) show ?case
    by (subst floor_log.simps) auto
qed

text \<open>
  From \<open>1024 ^ 4\<close> bytes on the index is no index of \<open>sizes\<close>, and the unit printed is
  the text \<open>undefined\<close>.
\<close>

lemma formatFileSize_beyond_table:
  assumes "1024 ^ 4 \<le> bytes"
  shows "\<exists>m. formatFileSize bytes = m @ '' undefined''"
proof -
  from assms have "4 \<le> floor_log 1024 bytes"
    by (intro floor_log_ge) auto
  then have "4 \<le> log_index bytes"
    by (simp add: log_index_def)
  moreover from assms have "bytes \<noteq> 0"
    by auto
  ultimately show ?thesis
    by (simp add: formatFileSize_def Let_def sizes_def)
qed

text \<open>
  No route writes to the \<open>uploads/\<close> directory or deletes from it, and the one place
  where an entry leaves \<open>fileStore\<close> is the expiry branch of \<open>resolve\<close>, which removes
  the entry that was asked for and no other.
\<close>

lemma resolve_uploads: "uploads (snd (resolve downloadId now s)) = uploads s"
  by (simp add: resolve_def split: option.splits)

lemma get_download_uploads: "uploads (snd (get_download downloadId now s)) = uploads s"
  by (simp add: get_download_def resolve_def Let_def split: option.splits)

lemma get_download_file_state: "snd (get_download_file downloadId fname s) = s"
  by (simp add: get_download_file_def split: option.splits)

lemma resolve_other_keys:
  "k \<noteq> downloadId \<Longrightarrow> fileStore (snd (resolve downloadId now s)) k = fileStore s k"
  by (simp add: resolve_def split: option.splits)

section \<open>Creating a transfer\<close>

text \<open>
  C10. An upload whose \<open>req.files\<close> is absent or empty is answered with status 400 and
  changes nothing: the state returned is the state given, so no entry is stored and
  no random fragment is consumed.
\<close>

theorem upload_without_files_rejected:
  "req_files req = None \<or> req_files req = Some [] \<Longrightarrow>
   post_api_upload req created now s = (Status400 ''Please select files to upload'', s)"
  by (auto simp: post_api_upload_def)

theorem upload_without_files_rejected_witness:
  "(req_files empty_request = None \<or> req_files empty_request = Some []) \<and>
   post_api_upload empty_request 7 7 after_first =
     (Status400 ''Please select files to upload'', after_first)"
  using upload_without_files_rejected [of empty_request 7 7 after_first]
  by (simp add: empty_request_def)

text \<open>
  C1, at an identifier that is generated a second time. The server that holds the first
  file under \<open>abab\<close> generates \<open>abab\<close> again for the next upload. The handler sets the
  entry with no look at the keys of \<open>fileStore\<close> and generates no other identifier:
  the upload answers with \<open>abab\<close>, the entry under it is now the one of the two new
  files, and the one that was there is lost.
\<close>

theorem upload_overwrites_on_collision:
  "fileStore after_first ''abab'' = Some first_transfer \<and>
   fst (generateDownloadId after_first) = ''abab'' \<and>
   fst (post_api_upload pair_request 1 1 after_first) = Json200 ''abab'' 2 \<and>
   fileStore (snd (post_api_upload pair_request 1 1 after_first)) ''abab'' =
     Some pair_transfer \<and>
   pair_transfer \<noteq> first_transfer \<and>
   dom (fileStore (snd (post_api_upload pair_request 1 1 after_first))) = {''abab''}"
  by (simp add: after_first_eval post_api_upload_def generateDownloadId_def pair_request_def
      first_file_def second_file_def first_transfer_def pair_transfer_def)

text \<open>
  C6. After an upload of at least one file, with \<open>now\<close> the clock value that the expiry
  is counted from, the lookup of the identifier that the upload answered with, at any
  time up to \<open>now\<close> plus seven days, hands on an entry whose files are the uploaded
  ones, in their order: the same original names, stored names, paths and sizes.
\<close>

theorem upload_then_resolve:
  assumes "req_files req = Some fs" and "fs \<noteq> []" and "t \<le> now + 7 * 24 * 60 * 60 * 1000"
  shows "\<exists>downloadId r.
           fst (post_api_upload req created now s) = Json200 downloadId (length fs) \<and>
           fst (resolve downloadId t (snd (post_api_upload req created now s))) = Live r \<and>
           length (files r) = length fs \<and>
           map originalName (files r) = map originalname fs \<and>
           map storedName (files r) = map filename fs \<and>
           map path (files r) = map upload_path fs \<and>
           map size_f (files r) = map upload_size fs"
  using assms by (simp add: post_api_upload_def generateDownloadId_def resolve_def comp_def)

theorem upload_then_resolve_witness:
  "req_files pair_request = Some [second_file, first_file] \<and>
   [second_file, first_file] \<noteq> [] \<and>
   (604800001::int) \<le> 1 + 7 * 24 * 60 * 60 * 1000 \<and>
   (\<exists>downloadId r.
      fst (post_api_upload pair_request 1 1 idle_server) =
        Json200 downloadId (length [second_file, first_file]) \<and>
      fst (resolve downloadId 604800001 (snd (post_api_upload pair_request 1 1 idle_server))) =
        Live r \<and>
      length (files r) = length [second_file, first_file] \<and>
      map originalName (files r) = map originalname [second_file, first_file] \<and>
      map storedName (files r) = map filename [second_file, first_file] \<and>
      map path (files r) = map upload_path [second_file, first_file] \<and>
      map size_f (files r) = map upload_size [second_file, first_file])"
  using upload_then_resolve [of pair_request "[second_file, first_file]" 604800001 1 1 idle_server]
  by (simp add: pair_request_def)

section \<open>Looking a transfer up\<close>

text \<open>
  C8. The lookup of an identifier that is a key of \<open>fileStore\<close> and not past its
  \<open>expiresAt\<close> hands on the stored entry as it is and returns the state it was given,
  and so does the whole handler: nothing of the entry or of the map is written.
\<close>

theorem resolve_live_read_only:
  "fileStore s downloadId = Some r \<Longrightarrow> now \<le> expiresAt r \<Longrightarrow>
   resolve downloadId now s = (Live r, s) \<and> snd (get_download downloadId now s) = s"
  by (simp add: get_download_def resolve_def Let_def)

theorem resolve_live_read_only_witness:
  "fileStore after_first ''abab'' = Some first_transfer \<and>
   (604800000::int) \<le> expiresAt first_transfer \<and>
   resolve ''abab'' 604800000 after_first = (Live first_transfer, after_first) \<and>
   snd (get_download ''abab'' 604800000 after_first) = after_first"
  using resolve_live_read_only [of after_first "''abab''" first_transfer 604800000]
  by (simp add: after_first_eval first_transfer_def)

text \<open>
  C9. For an identifier that is a key of \<open>fileStore\<close> and not past its \<open>expiresAt\<close>, the
  handler answers an entry of one file with the download of that file's path under
  its original name, and an entry of more than one file with the page whose items are
  the entry's files in their order, each with the link
  \<open>/download-file/<identifier>/<storedName>\<close>, the original name and the formatted size.
\<close>

theorem download_one_or_many:
  assumes "fileStore s downloadId = Some r" and "now \<le> expiresAt r"
  shows "(length (files r) = 1 \<longrightarrow>
            fst (get_download downloadId now s) =
              Download (path (files r ! 0)) (originalName (files r ! 0))) \<and>
         (1 < length (files r) \<longrightarrow>
            fst (get_download downloadId now s) =
              Page (map (\<lambda>file. (''/download-file/'' @ downloadId @ ''/'' @ storedName file,
                                 originalName file,
                                 formatFileSize (size_f file))) (files r)))"
  using assms by (simp add: get_download_def resolve_def file_item_def Let_def)

text \<open>The witness: the entry of one file, then the entry of two.\<close>

theorem download_one_or_many_witness:
  "fileStore after_first ''abab'' = Some first_transfer \<and>
   (5::int) \<le> expiresAt first_transfer \<and>
   length (files first_transfer) = 1 \<and>
   fst (get_download ''abab'' 5 after_first) = Download ''uploads/1-2.txt'' ''a.txt'' \<and>
   fileStore after_pair ''abab'' = Some pair_transfer \<and>
   (5::int) \<le> expiresAt pair_transfer \<and>
   1 < length (files pair_transfer) \<and>
   fst (get_download ''abab'' 5 after_pair) =
     Page [(''/download-file/abab/3-4.png'', ''b.png'', ''5 Bytes''),
           (''/download-file/abab/1-2.txt'', ''a.txt'', ''1.5 KB'')]"
  using download_one_or_many [of after_first "''abab''" first_transfer 5]
    download_one_or_many [of after_pair "''abab''" pair_transfer 5]
  by (simp add: after_first_eval after_pair_eval first_transfer_def pair_transfer_def
      formatFileSize_values)

section \<open>Expiry\<close>

text \<open>
  C7, as the code has it. The upload handler takes \<open>createdAt\<close> from one reading of the
  clock and counts \<open>expiresAt\<close> from a second one, seven days after it. A lookup at a
  time later than that \<open>expiresAt\<close> is answered with status 410 and deletes the entry
  from \<open>fileStore\<close>. In the state that this leaves, every lookup of the identifier, at any
  time, and every request for one of its files, under any name, is answered with
  status 404 and leaves the state as it is.
\<close>

theorem expired_then_not_found:
  assumes "req_files req = Some fs" and "fs \<noteq> []"
    and "post_api_upload req created now s = (Json200 downloadId n, s1)"
    and "now + 7 * 24 * 60 * 60 * 1000 < t"
    and "s2 = snd (get_download downloadId t s1)"
  shows "(\<exists>r. fileStore s1 downloadId = Some r \<and> createdAt r = created \<and>
              expiresAt r = now + 7 * 24 * 60 * 60 * 1000 \<and> expiresAt r < t) \<and>
         fst (resolve downloadId t s1) = Expired \<and>
         fst (get_download downloadId t s1) = Status410 \<and>
         fileStore s2 downloadId = None \<and>
         (\<forall>t'. resolve downloadId t' s2 = (Missing, s2)) \<and>
         (\<forall>t'. get_download downloadId t' s2 = (Status404, s2)) \<and>
         (\<forall>fname. get_download_file downloadId fname s2 = (Status404, s2))"
proof -
  from assms(1,2,3) have id: "downloadId = fst (generateDownloadId s)"
    and s1: "s1 = (snd (generateDownloadId s))\<lparr>fileStore :=
        (fileStore s)(fst (generateDownloadId s) \<mapsto>
          \<lparr>files = map (\<lambda>file. \<lparr>originalName = originalname file,
                                    storedName = filename file,
                                    path = upload_path file,
                                    size_f = upload_size file\<rparr>) fs,
           email = body_email req, message = body_message req,
           createdAt = created, expiresAt = now + 7 * 24 * 60 * 60 * 1000\<rparr>)\<rparr>"
    by (auto simp: post_api_upload_def generateDownloadId_def)
  from s1 id obtain r where r: "fileStore s1 downloadId = Some r"
    "createdAt r = created" "expiresAt r = now + 7 * 24 * 60 * 60 * 1000"
    by (simp add: generateDownloadId_def)
  from r(3) assms(4) have late: "expiresAt r < t"
    by simp
  from r(1) late have gone: "resolve downloadId t s1 =
      (Expired, s1\<lparr>fileStore := (fileStore s1)(downloadId := None)\<rparr>)"
    by (simp add: resolve_def)
  then have s2: "s2 = s1\<lparr>fileStore := (fileStore s1)(downloadId := None)\<rparr>"
    using assms(5) by (simp add: get_download_def)
  then have absent: "fileStore s2 downloadId = None"
    by simp
  from absent have "\<forall>t'. resolve downloadId t' s2 = (Missing, s2)"
    by (simp add: resolve_def)
  moreover from absent have "\<forall>t'. get_download downloadId t' s2 = (Status404, s2)"
    by (simp add: get_download_def resolve_def)
  moreover from absent have "\<forall>fname. get_download_file downloadId fname s2 = (Status404, s2)"
    by (simp add: get_download_file_def)
  moreover from gone have "fst (get_download downloadId t s1) = Status410"
    by (simp add: get_download_def)
  ultimately show ?thesis
    using r late gone absent by simp
qed

text \<open>
  The witness: the upload with the clock at 0 and then at 1, looked up at 604800002.
\<close>

theorem expired_then_not_found_witness:
  "req_files first_request = Some [first_file] \<and> [first_file] \<noteq> [] \<and>
   post_api_upload first_request 0 1 idle_server = (Json200 ''abab'' 1, after_tick) \<and>
   (1::int) + 7 * 24 * 60 * 60 * 1000 < 604800002 \<and>
   (\<exists>r. fileStore after_tick ''abab'' = Some r \<and> createdAt r = 0 \<and>
        expiresAt r = 1 + 7 * 24 * 60 * 60 * 1000 \<and> expiresAt r < 604800002) \<and>
   fst (resolve ''abab'' 604800002 after_tick) = Expired \<and>
   fst (get_download ''abab'' 604800002 after_tick) = Status410 \<and>
   fileStore (snd (get_download ''abab'' 604800002 after_tick)) ''abab'' = None \<and>
   (\<forall>t'. resolve ''abab'' t' (snd (get_download ''abab'' 604800002 after_tick)) =
      (Missing, snd (get_download ''abab'' 604800002 after_tick))) \<and>
   (\<forall>t'. get_download ''abab'' t' (snd (get_download ''abab'' 604800002 after_tick)) =
      (Status404, snd (get_download ''abab'' 604800002 after_tick))) \<and>
   (\<forall>fname. get_download_file ''abab'' fname (snd (get_download ''abab'' 604800002 after_tick)) =
      (Status404, snd (get_download ''abab'' 604800002 after_tick)))"
proof -
  have fs: "req_files first_request = Some [first_file]"
    by (simp add: first_request_def)
  show ?thesis
    using expired_then_not_found [OF fs _ upload_tick_eval, of 604800002
        "snd (get_download ''abab'' 604800002 after_tick)"] fs upload_tick_eval
    by simp
qed

text \<open>
  C7, as the claim has it, fails when the clock ticks between the two readings. The
  upload with the clock at 0 for \<open>new Date()\<close> and at 1 for \<open>Date.now()\<close> stores a
  transfer created at time 0 that expires at 604800001. The lookup at 604800001,
  later than the time of creation plus seven days, is answered with the download of
  the file, and the entry stays in \<open>fileStore\<close>.
\<close>

theorem tick_between_clock_reads_delays_expiry:
  "post_api_upload first_request 0 1 idle_server = (Json200 ''abab'' 1, after_tick) \<and>
   fileStore after_tick ''abab'' = Some tick_transfer \<and>
   createdAt tick_transfer = 0 \<and>
   createdAt tick_transfer + 7 * 24 * 60 * 60 * 1000 < 604800001 \<and>
   fst (resolve ''abab'' 604800001 after_tick) = Live tick_transfer \<and>
   get_download ''abab'' 604800001 after_tick =
     (Download ''uploads/1-2.txt'' ''a.txt'', after_tick)"
  by (simp add: upload_tick_eval)
    (simp add: after_tick_eval tick_transfer_def get_download_def resolve_def)

text \<open>
  C2, at a transfer that the code removes. The server holds the file of path
  \<open>uploads/1-2.txt\<close> under \<open>abab\<close>, uploaded at time 0. The lookup one millisecond after
  the seven days answers with status 410 and deletes the entry, and the path still
  holds its content in \<open>uploads/\<close>.
\<close>

theorem expired_record_leaves_content:
  "map path (files first_transfer) = [''uploads/1-2.txt''] \<and>
   fileStore after_first ''abab'' = Some first_transfer \<and>
   ''uploads/1-2.txt'' \<in> uploads after_first \<and>
   fst (get_download ''abab'' 604800001 after_first) = Status410 \<and>
   fileStore (snd (get_download ''abab'' 604800001 after_first)) ''abab'' = None \<and>
   ''uploads/1-2.txt'' \<in> uploads (snd (get_download ''abab'' 604800001 after_first))"
  by (simp add: after_first_eval first_transfer_def get_download_def resolve_def)

text \<open>
  C3, at a transfer past its \<open>expiresAt\<close>. For the same server, one millisecond after
  the seven days, \<open>GET /download/abab\<close> answers with status 410, while
  \<open>GET /download-file/abab/1-2.txt\<close>, which reads no clock, answers with the download of
  the file and leaves the entry in \<open>fileStore\<close>.
\<close>

theorem download_file_skips_expiry:
  "expiresAt first_transfer < 604800001 \<and>
   fileStore after_first ''abab'' = Some first_transfer \<and>
   fst (get_download ''abab'' 604800001 after_first) = Status410 \<and>
   get_download_file ''abab'' ''1-2.txt'' after_first =
     (Download ''uploads/1-2.txt'' ''a.txt'', after_first)"
  by (simp add: after_first_eval first_transfer_def get_download_def resolve_def
      get_download_file_def)

section \<open>Formatting a size\<close>

text \<open>
  C4, at two tebibytes. The index computed for \<open>2 * 1024 ^ 4\<close> bytes is 4, the scaled
  value is 2, and \<open>sizes\<close> has no entry 4: the text returned is \<open>2 undefined\<close>, not a
  number of gigabytes.
\<close>

theorem formatFileSize_two_tebibytes:
  "formatFileSize 2199023255552 = ''2 undefined''"
  by (simp add: formatFileSize_def Let_def log_index_values toFixed2_def show_hundredths_def
      sizes_def digit_def string_of_nat.simps)

end
